theory Spec2Isabelle
  imports Complex_Main
begin

section \<open>ThickLine: parameter derivation, validation, shapes and settings\<close>

text \<open>
  A shallow embedding of \<^verbatim>\<open>src/ThickLine.cpp\<close>. Every \<^verbatim>\<open>double\<close> of the source is a
  \<^typ>\<open>real\<close> here: arithmetic is exact, and there is neither rounding nor NaN nor
  infinity. A \<^verbatim>\<open>std::string\<close> is a \<^typ>\<open>string\<close>. A function that returns
  \<^verbatim>\<open>bool\<close> and writes its reason into \<^verbatim>\<open>std::string& err\<close> returns
  \<open>string + unit\<close>: \<open>Inl msg\<close> is \<^verbatim>\<open>return false\<close> with \<^verbatim>\<open>err = msg\<close>, and
  \<open>Inr ()\<close> is \<^verbatim>\<open>return true\<close>.
\<close>

subsection \<open>Numeric thresholds\<close>

definition kEpsCoincident :: real where
  "kEpsCoincident = 1 / 10 ^ 12"

definition kEpsSketchLen :: real where
  "kEpsSketchLen = 1 / 10 ^ 9"

subsection \<open>The settings record\<close>

record ThickLineSettings =
  width_cm :: real
  featAType :: string
  leadA_cm :: real
  featAL_cm :: real
  featAW_cm :: real
  featBType :: string
  leadB_cm :: real
  featBL_cm :: real
  featBW_cm :: real

definition ThickLineSettings_default :: ThickLineSettings where
  "ThickLineSettings_default =
     \<lparr>width_cm = 2 / 10, featAType = ''None'', leadA_cm = 0,
      featAL_cm = 5 / 10, featAW_cm = 5 / 10,
      featBType = ''None'', leadB_cm = 0,
      featBL_cm = 5 / 10, featBW_cm = 5 / 10\<rparr>"

subsection \<open>2D vectors in sketch space\<close>

record V2 =
  vx :: real
  vy :: real

definition v2 :: "real \<Rightarrow> real \<Rightarrow> V2" where
  "v2 a b = \<lparr>vx = a, vy = b\<rparr>"

definition vadd :: "V2 \<Rightarrow> V2 \<Rightarrow> V2" where
  "vadd a b = v2 (vx a + vx b) (vy a + vy b)"

definition vsub :: "V2 \<Rightarrow> V2 \<Rightarrow> V2" where
  "vsub a b = v2 (vx a - vx b) (vy a - vy b)"

definition vscale :: "V2 \<Rightarrow> real \<Rightarrow> V2" where
  "vscale a s = v2 (vx a * s) (vy a * s)"

definition vlen :: "V2 \<Rightarrow> real" where
  "vlen a = sqrt (vx a * vx a + vy a * vy a)"

definition vdot :: "V2 \<Rightarrow> V2 \<Rightarrow> real" where
  "vdot a b = vx a * vx b + vy a * vy b"

definition vperp_ccw :: "V2 \<Rightarrow> V2" where
  "vperp_ccw a = v2 (- vy a) (vx a)"

subsection \<open>The parameter bundle\<close>

text \<open>
  The struct \<^verbatim>\<open>ThickLineParams\<close> without its \<^verbatim>\<open>sketch\<close> handle, which belongs to the
  host; whether a sketch is being edited is a field of the inputs below.
\<close>

record ThickLineParams =
  A :: V2
  B :: V2
  widthCm :: real
  leadACm :: real
  leadBCm :: real
  featAType :: string
  featAWCm :: real
  featALCm :: real
  featBType :: string
  featBWCm :: real
  featBLCm :: real
  L :: real
  Ldir :: V2
  Wdir :: V2
  Aext :: V2
  Bext :: V2
  Abase :: V2
  Bbase :: V2

text \<open>The default member initialisers: what \<^verbatim>\<open>ThickLineParams P;\<close> holds.\<close>

definition ThickLineParams_init :: ThickLineParams where
  "ThickLineParams_init =
     \<lparr>A = v2 0 0, B = v2 0 0, widthCm = 0, leadACm = 0, leadBCm = 0,
      featAType = ''None'', featAWCm = 0, featALCm = 0,
      featBType = ''None'', featBWCm = 0, featBLCm = 0,
      L = 0, Ldir = v2 0 0, Wdir = v2 0 0,
      Aext = v2 0 0, Bext = v2 0 0, Abase = v2 0 0, Bbase = v2 0 0\<rparr>"

subsection \<open>What the host's command dialog supplies\<close>

text \<open>
  A point selection as \<^verbatim>\<open>extractParams\<close> sees it: nothing selected (or no selection
  input), an entity of which \<^verbatim>\<open>worldPointFromEntity\<close> returns no point, or the picked
  point as \<^verbatim>\<open>modelToSketchSpace\<close> gives it, reduced to its x and y.
\<close>

datatype Selection = NoSelection | NoGeometry | Picked V2

text \<open>
  The command inputs. A value input is \<open>None\<close> when the cast to
  \<^verbatim>\<open>ValueCommandInput\<close> is null; a drop-down is \<open>None\<close> when the input or its selected
  item is null, and otherwise holds the name of the selected item.
\<close>

record CommandInputs =
  activeSketch :: bool
  widthIn :: "real option"
  leadAIn :: "real option"
  leadBIn :: "real option"
  ddA :: "string option"
  ddB :: "string option"
  featAWIn :: "real option"
  featALIn :: "real option"
  featBWIn :: "real option"
  featBLIn :: "real option"
  selA :: Selection
  selB :: Selection

definition value_or_zero :: "real option \<Rightarrow> real" where
  "value_or_zero i = (case i of Some v \<Rightarrow> v | None \<Rightarrow> 0)"

definition name_or_None :: "string option \<Rightarrow> string" where
  "name_or_None d = (case d of Some n \<Rightarrow> n | None \<Rightarrow> ''None'')"

text \<open>
  \<^verbatim>\<open>(P.featAType != "None" && featAWIn) ? featAWIn->value() : 0.0\<close>
\<close>

definition feat_value :: "string \<Rightarrow> real option \<Rightarrow> real" where
  "feat_value ty i = (if ty \<noteq> ''None'' then value_or_zero i else 0)"

subsection \<open>Parameter derivation\<close>

text \<open>
  \<^verbatim>\<open>extractParams\<close> fills the record it is given step by step and returns at the first
  failure, so the model returns the outcome together with the record as it stands at that
  point.
\<close>

definition derive :: "ThickLineParams \<Rightarrow> ThickLineParams" where
  "derive P1 =
     (let P2 = P1\<lparr>Ldir := vscale (vsub (B P1) (A P1)) (1 / L P1)\<rparr>;
          P3 = P2\<lparr>Wdir := vperp_ccw (Ldir P2)\<rparr>;
          P4 = P3\<lparr>Aext := vadd (A P3) (vscale (Ldir P3) (- leadACm P3))\<rparr>;
          P5 = P4\<lparr>Bext := vadd (B P4) (vscale (Ldir P4) (leadBCm P4))\<rparr>;
          P6 = P5\<lparr>Abase := vadd (Aext P5) (vscale (Ldir P5) (featALCm P5))\<rparr>;
          P7 = P6\<lparr>Bbase := vadd (Bext P6) (vscale (Ldir P6) (- featBLCm P6))\<rparr>
      in P7)"

definition read_inputs :: "CommandInputs \<Rightarrow> ThickLineParams \<Rightarrow> ThickLineParams" where
  "read_inputs inputs P =
     (let P1 = P\<lparr>widthCm := value_or_zero (widthIn inputs),
                 leadACm := value_or_zero (leadAIn inputs),
                 leadBCm := value_or_zero (leadBIn inputs)\<rparr>;
          P2 = P1\<lparr>featAType := name_or_None (ddA inputs),
                  featBType := name_or_None (ddB inputs)\<rparr>;
          P3 = P2\<lparr>featAWCm := feat_value (featAType P2) (featAWIn inputs),
                  featALCm := feat_value (featAType P2) (featALIn inputs),
                  featBWCm := feat_value (featBType P2) (featBWIn inputs),
                  featBLCm := feat_value (featBType P2) (featBLIn inputs)\<rparr>
      in P3)"

definition extractParams ::
  "CommandInputs \<Rightarrow> ThickLineParams \<Rightarrow> (string + unit) \<times> ThickLineParams" where
  "extractParams inputs P =
     (if \<not> activeSketch inputs
      then (Inl ''Please edit a sketch before running this command.'', P)
      else
        let P1 = read_inputs inputs P in
        case selA inputs of
          NoSelection \<Rightarrow> (Inl ''Select point or entity for A.'', P1)
        | _ \<Rightarrow>
          (case selB inputs of
             NoSelection \<Rightarrow> (Inl ''Select point or entity for B.'', P1)
           | _ \<Rightarrow>
             (case (selA inputs, selB inputs) of
                (Picked sA, Picked sB) \<Rightarrow>
                  let P2 = P1\<lparr>A := v2 (vx sA) (vy sA), B := v2 (vx sB) (vy sB)\<rparr>;
                      diff = vsub (B P2) (A P2);
                      P3 = P2\<lparr>L := vlen diff\<rparr>
                  in if L P3 \<le> kEpsCoincident
                     then (Inl ''Points A and B are coincident or too close together.'', P3)
                     else (Inr (), derive P3)
              | (Picked sA, _) \<Rightarrow>
                  (Inl ''Could not read geometry for selection B. Please select a SketchPoint, ConstructionPoint, or Vertex.'', P1)
              | _ \<Rightarrow>
                  (Inl ''Could not read geometry for selection A. Please select a SketchPoint, ConstructionPoint, or Vertex.'', P1))))"

subsection \<open>Validation\<close>

definition validateParams :: "ThickLineParams \<Rightarrow> string + unit" where
  "validateParams P =
     (if widthCm P \<le> 0 then Inl ''Width of line must be > 0.''
      else if L P \<le> kEpsCoincident
        then Inl ''Points A and B are coincident or too close together.''
      else if featAType P \<noteq> ''None'' \<and> featAWCm P < widthCm P
        then Inl ''Feature A width must be >= line width.''
      else if featAType P \<noteq> ''None'' \<and> featALCm P \<le> 0
        then Inl ''Feature A length must be > 0.''
      else if featBType P \<noteq> ''None'' \<and> featBWCm P < widthCm P
        then Inl ''Feature B width must be >= line width.''
      else if featBType P \<noteq> ''None'' \<and> featBLCm P \<le> 0
        then Inl ''Feature B length must be > 0.''
      else
        let seg = vsub (Bbase P) (Abase P);
            segLenSigned = vdot seg (Ldir P)
        in if segLenSigned \<le> kEpsSketchLen
           then Inl ''Leads and/or feature lengths consume the segment. Reduce leads/features or move A and B further apart.''
           else Inr ())"

subsection \<open>Shape generation\<close>

text \<open>
  The two drawing calls of the command handler, with the corner points they are given:
  \<^verbatim>\<open>drawThreePointRect(sk, p0, p1, p3)\<close> and \<^verbatim>\<open>drawTriangle(sk, a, b, c)\<close>.
\<close>

datatype Shape = ThreePointRect V2 V2 V2 | Triangle V2 V2 V2

definition featA_shapes :: "ThickLineParams \<Rightarrow> Shape list" where
  "featA_shapes P =
     (if featAType P = ''Arrow'' then
        let aSide = vscale (Wdir P) (featAWCm P * (1 / 2));
            baseL = vadd (Abase P) aSide;
            baseR = vadd (Abase P) (vscale aSide (- 1))
        in [Triangle baseL (Aext P) baseR]
      else if featAType P = ''T'' then
        let aSide = vscale (Wdir P) (featAWCm P * (1 / 2));
            aL0 = vadd (Abase P) aSide;
            aR0 = vadd (Abase P) (vscale aSide (- 1));
            aL1 = vadd aL0 (vscale (Ldir P) (- featALCm P));
            aR1 = vadd aR0 (vscale (Ldir P) (- featALCm P))
        in [ThreePointRect aL0 aL1 aR0]
      else [])"

definition featB_shapes :: "ThickLineParams \<Rightarrow> Shape list" where
  "featB_shapes P =
     (if featBType P = ''Arrow'' then
        let bSide = vscale (Wdir P) (featBWCm P * (1 / 2));
            baseL = vadd (Bbase P) bSide;
            baseR = vadd (Bbase P) (vscale bSide (- 1))
        in [Triangle baseL (Bext P) baseR]
      else if featBType P = ''T'' then
        let bSide = vscale (Wdir P) (featBWCm P * (1 / 2));
            bL0 = vadd (Bbase P) bSide;
            bR0 = vadd (Bbase P) (vscale bSide (- 1));
            bL1 = vadd bL0 (vscale (Ldir P) (featBLCm P));
            bR1 = vadd bR0 (vscale (Ldir P) (featBLCm P))
        in [ThreePointRect bL0 bL1 bR0]
      else [])"

text \<open>
  The shapes drawn for a validated record, in the order of the drawing calls. As in the
  source, \<open>seg\<close>, \<open>Bminus\<close> and, for a T, the second far corner are computed and not passed
  to any drawing call.
\<close>

definition draw_shapes :: "ThickLineParams \<Rightarrow> Shape list" where
  "draw_shapes P =
     (let wHalf = vscale (Wdir P) (widthCm P * (1 / 2));
          seg = vsub (Bbase P) (Abase P);
          Aplus = vadd (Abase P) wHalf;
          Aminus = vsub (Abase P) wHalf;
          Bplus = vadd (Bbase P) wHalf;
          Bminus = vsub (Bbase P) wHalf
      in [ThreePointRect Aplus Bplus Aminus] @ featA_shapes P @ featB_shapes P)"

text \<open>
  The command handler up to its drawing calls: derivation from a fresh record, validation,
  and only then the shapes; a failure is the reason that is logged.
\<close>

definition command_shapes :: "CommandInputs \<Rightarrow> string + Shape list" where
  "command_shapes inputs =
     (case extractParams inputs ThickLineParams_init of
        (Inl err, P) \<Rightarrow> Inl err
      | (Inr u, P) \<Rightarrow>
          (case validateParams P of
             Inl err \<Rightarrow> Inl err
           | Inr u \<Rightarrow> Inr (draw_shapes P)))"

text \<open>
  Modelled from the spec: the host's \<^verbatim>\<open>addThreePointRectangle\<close>, which is called by
  \<^verbatim>\<open>drawThreePointRect\<close> and is not part of the source. The specification's rectangle has
  the four corners \<open>Abase + half\<close>, \<open>Bbase + half\<close>, \<open>Abase - half\<close> and
  \<open>Bbase - half\<close>, of which the handler passes the first three. So the rectangle of the
  model has \<open>p0\<close> and \<open>p1\<close> as the corners of one side, and its opposite side lies on the
  parallel through \<open>p3\<close>: the other two corners are \<open>p1\<close> and \<open>p0\<close> moved by the part of
  \<open>p3 - p0\<close> that is perpendicular to the first side, which is all of it in every call of
  the handler. Nothing is drawn from two coincident base corners. The result is the closed
  polygon as a list of corners in drawing order; a triangle is its three points.
\<close>

definition rect_corners :: "V2 \<Rightarrow> V2 \<Rightarrow> V2 \<Rightarrow> V2 list" where
  "rect_corners p0 p1 p3 =
     (let d = vsub p1 p0; e = vsub p3 p0 in
      if vdot d d = 0 then []
      else
        let h = vsub e (vscale d (vdot e d / vdot d d))
        in [p0, p1, vadd p1 h, vadd p0 h])"

fun polygon_of :: "Shape \<Rightarrow> V2 list" where
  "polygon_of (ThreePointRect p0 p1 p3) = rect_corners p0 p1 p3"
| "polygon_of (Triangle a b c) = [a, b, c]"

text \<open>
  Two closed segments \<open>p q\<close> and \<open>r s\<close> have a common point; a quadrilateral is
  non-self-intersecting when neither pair of opposite edges has one.
\<close>

definition segments_meet :: "V2 \<Rightarrow> V2 \<Rightarrow> V2 \<Rightarrow> V2 \<Rightarrow> bool" where
  "segments_meet p q r s =
     (\<exists>t u. 0 \<le> t \<and> t \<le> 1 \<and> 0 \<le> u \<and> u \<le> 1 \<and>
        vadd p (vscale (vsub q p) t) = vadd r (vscale (vsub s r) u))"

fun simple_quad :: "V2 list \<Rightarrow> bool" where
  "simple_quad [p0, p1, p2, p3] =
     (\<not> segments_meet p0 p1 p2 p3 \<and> \<not> segments_meet p1 p2 p3 p0)"
| "simple_quad ps = False"

subsection \<open>Settings and their text file\<close>

text \<open>The settings that the command handler saves after drawing.\<close>

definition settings_of :: "ThickLineParams \<Rightarrow> ThickLineSettings" where
  "settings_of P =
     \<lparr>width_cm = widthCm P, ThickLineSettings.featAType = featAType P, leadA_cm = leadACm P,
      featAL_cm = featALCm P, featAW_cm = featAWCm P,
      ThickLineSettings.featBType = featBType P, leadB_cm = leadBCm P,
      featBL_cm = featBLCm P, featBW_cm = featBWCm P\<rparr>"



text \<open>
  The lines that \<^verbatim>\<open>while (std::getline(f, line))\<close> yields: each line ends at a line feed,
  which is dropped; what follows the last line feed is a line only if it is not empty. The
  first argument is the line read so far.
\<close>

fun getlines_from :: "string \<Rightarrow> string \<Rightarrow> string list" where
  "getlines_from cur [] = (if cur = [] then [] else [cur])"
| "getlines_from cur (c # cs) =
     (if c = CHR 0x0A then cur # getlines_from [] cs else getlines_from (cur @ [c]) cs)"

definition getlines :: "string \<Rightarrow> string list" where
  "getlines txt = getlines_from [] txt"

text \<open>
  \<^verbatim>\<open>line.substr(0, pos)\<close> and \<^verbatim>\<open>line.substr(pos + 1)\<close>, for \<open>pos\<close> the position of the first
  \<open>=\<close> of a line that has one.
\<close>

definition line_key :: "string \<Rightarrow> string" where
  "line_key line = takeWhile (\<lambda>c. c \<noteq> CHR ''='') line"

definition line_value :: "string \<Rightarrow> string" where
  "line_value line = drop (length (line_key line) + 1) line"

text \<open>The body of the loop: one line applied to the settings read so far.\<close>

definition apply_line ::
  "(string \<Rightarrow> real option) \<Rightarrow> ThickLineSettings \<Rightarrow> string \<Rightarrow> ThickLineSettings" where
  "apply_line stod s line =
     (if CHR ''='' \<notin> set line then s
      else
        let key = line_key line;
            val = line_value line
        in if key = ''featAType'' then s\<lparr>ThickLineSettings.featAType := val\<rparr>
           else if key = ''featBType'' then s\<lparr>ThickLineSettings.featBType := val\<rparr>
           else
             (case stod val of
                None \<Rightarrow> s
              | Some v \<Rightarrow>
                  if key = ''width_cm'' then s\<lparr>width_cm := v\<rparr>
                  else if key = ''leadA_cm'' then s\<lparr>leadA_cm := v\<rparr>
                  else if key = ''leadB_cm'' then s\<lparr>leadB_cm := v\<rparr>
                  else if key = ''featAL_cm'' then s\<lparr>featAL_cm := v\<rparr>
                  else if key = ''featAW_cm'' then s\<lparr>featAW_cm := v\<rparr>
                  else if key = ''featBL_cm'' then s\<lparr>featBL_cm := v\<rparr>
                  else if key = ''featBW_cm'' then s\<lparr>featBW_cm := v\<rparr>
                  else s))"

definition loadSettingsIni ::
  "(string \<Rightarrow> real option) \<Rightarrow> string option \<Rightarrow> ThickLineSettings" where
  "loadSettingsIni stod file =
     (case file of
        None \<Rightarrow> ThickLineSettings_default
      | Some txt \<Rightarrow> foldl (apply_line stod) ThickLineSettings_default (getlines txt))"

subsection \<open>The two library calls at the stream's default state\<close>

text \<open>
  A reference model of the two library calls, for evaluating the codec on concrete
  settings. Values are exact reals: the nearest-\<^verbatim>\<open>double\<close> rounding of \<^verbatim>\<open>strtod\<close>, the range
  of a \<^verbatim>\<open>double\<close>, and the spellings of infinity and NaN are outside the model, and so is
  the hexadecimal form, which \<^verbatim>\<open>operator<<\<close> never writes at the default state.
\<close>

definition pow10 :: "int \<Rightarrow> real" where
  "pow10 e = (if 0 \<le> e then 10 ^ nat e else 1 / 10 ^ nat (- e))"

definition isspace :: "char \<Rightarrow> bool" where
  "isspace c = (c \<in> set [CHR '' '', CHR 0x09, CHR 0x0A, CHR 0x0B, CHR 0x0C, CHR 0x0D])"

definition isdigit :: "char \<Rightarrow> bool" where
  "isdigit c = (c \<in> set ''0123456789'')"

definition digit_val :: "char \<Rightarrow> nat" where
  "digit_val c = of_char c - 48"

definition digits_val :: "string \<Rightarrow> nat" where
  "digits_val ds = foldl (\<lambda>n c. 10 * n + digit_val c) 0 ds"

definition take_sign :: "string \<Rightarrow> bool \<times> string" where
  "take_sign s =
     (case s of
        [] \<Rightarrow> (False, s)
      | c # r \<Rightarrow>
          if c = CHR ''-'' then (True, r)
          else if c = CHR ''+'' then (False, r)
          else (False, s))"

text \<open>
  The exponent part, if the text starts with one: \<open>e\<close> or \<open>E\<close>, an optional sign and at
  least one digit. Otherwise nothing is consumed and the exponent is 0.
\<close>

definition take_exponent :: "string \<Rightarrow> int" where
  "take_exponent s =
     (case s of
        [] \<Rightarrow> 0
      | c # r \<Rightarrow>
          if c = CHR ''e'' \<or> c = CHR ''E'' then
            (let (eneg, r2) = take_sign r; ed = takeWhile isdigit r2
             in if ed = [] then 0
                else if eneg then - int (digits_val ed) else int (digits_val ed))
          else 0)"

text \<open>
  \<^verbatim>\<open>std::stod\<close> on the decimal form: leading white space is skipped, then comes an optional
  sign, digits with an optional point among them (at least one digit), and an optional
  exponent part; what follows is ignored. \<open>None\<close> is the exception thrown when no number
  can be read.
\<close>

definition stod_decimal :: "string \<Rightarrow> real option" where
  "stod_decimal s =
     (let (neg, s2) = take_sign (dropWhile isspace s);
          ip = takeWhile isdigit s2;
          s3 = dropWhile isdigit s2;
          fp = (case s3 of [] \<Rightarrow> [] | c # r \<Rightarrow> if c = CHR ''.'' then takeWhile isdigit r else []);
          s4 = (case s3 of [] \<Rightarrow> [] | c # r \<Rightarrow> if c = CHR ''.'' then dropWhile isdigit r else s3)
      in if ip = [] \<and> fp = [] then None
         else
           let m = real (digits_val (ip @ fp)) / 10 ^ length fp;
               v = m * pow10 (take_exponent s4)
           in Some (if neg then - v else v))"







definition digit_char :: "nat \<Rightarrow> char" where
  "digit_char d = ''0123456789'' ! d"

definition six_digits :: "nat \<Rightarrow> string" where
  "six_digits m = map (\<lambda>i. digit_char (m div 10 ^ i mod 10)) [5, 4, 3, 2, 1, 0]"








subsection \<open>The specification's wording, for comparison with the code\<close>




text \<open>
  The lines that the specification says decoding passes over: a line without separator,
  a line with an unknown key, and a line with a numeric key whose value is not a number.
\<close>

definition numeric_keys :: "string list" where
  "numeric_keys =
     [''width_cm'', ''leadA_cm'', ''leadB_cm'', ''featAL_cm'', ''featAW_cm'',
      ''featBL_cm'', ''featBW_cm'']"

definition ignored_line :: "(string \<Rightarrow> real option) \<Rightarrow> string \<Rightarrow> bool" where
  "ignored_line stod line =
     (CHR ''='' \<notin> set line \<or>
      line_key line \<notin> set (''featAType'' # ''featBType'' # numeric_keys) \<or>
      (line_key line \<in> set numeric_keys \<and> stod (line_value line) = None))"



subsection \<open>Concrete inputs\<close>

text \<open>
  The specification's first scenario: A = (0, 0), B = (10, 0), width 2, no leads, no
  terminators. The four terminator sizes are what the disabled dialog fields still hold.
\<close>

definition plain_inputs :: CommandInputs where
  "plain_inputs =
     \<lparr>activeSketch = True, widthIn = Some 2, leadAIn = Some 0, leadBIn = Some 0,
      ddA = Some ''None'', ddB = Some ''None'',
      featAWIn = Some (5 / 10), featALIn = Some (5 / 10),
      featBWIn = Some (5 / 10), featBLIn = Some (5 / 10),
      selA = Picked (v2 0 0), selB = Picked (v2 10 0)\<rparr>"

text \<open>The second scenario: the same with an arrow of width 4 and length 2 at A.\<close>

definition arrow_inputs :: CommandInputs where
  "arrow_inputs = plain_inputs\<lparr>ddA := Some ''Arrow'', featAWIn := Some 4, featALIn := Some 2\<rparr>"


text \<open>The same point picked twice.\<close>

definition coincident_inputs :: CommandInputs where
  "coincident_inputs = plain_inputs\<lparr>selA := Picked (v2 3 4), selB := Picked (v2 3 4)\<rparr>"

text \<open>
  An arrow at A of length 0, and an arrow at B that is narrower than the line.
\<close>

definition blocked_inputs :: CommandInputs where
  "blocked_inputs =
     plain_inputs\<lparr>ddA := Some ''Arrow'', featAWIn := Some 4, featALIn := Some 0,
                  ddB := Some ''Arrow'', featBWIn := Some 1, featBLIn := Some 2\<rparr>"


text \<open>A T at B that is narrower than the line, and no terminator at A.\<close>

definition narrow_params :: ThickLineParams where
  "narrow_params =
     \<lparr>A = v2 0 0, B = v2 10 0, widthCm = 2, leadACm = 0, leadBCm = 0,
      featAType = ''None'', featAWCm = 0, featALCm = 0,
      featBType = ''T'', featBWCm = 1, featBLCm = 2,
      L = 10, Ldir = v2 1 0, Wdir = v2 0 1,
      Aext = v2 0 0, Bext = v2 10 0, Abase = v2 0 0, Bbase = v2 8 0\<rparr>"


definition damaged_text :: string where
  "damaged_text =
     ''width_cm=1.5'' @ [CHR 0x0A] @
     ''no separator here'' @ [CHR 0x0A] @
     ''leadA_cm=abc'' @ [CHR 0x0A] @
     ''colour=3'' @ [CHR 0x0A] @
     ''featAW_cm=3'' @ [CHR 0x0A]"

section \<open>Auxiliary facts\<close>

subsection \<open>Derivation\<close>

lemma v2_eta: "v2 (vx p) (vy p) = (p::V2)"
  by (simp add: v2_def)

lemma derive_fields:
  "A (derive P) = A P" "B (derive P) = B P" "L (derive P) = L P"
  "widthCm (derive P) = widthCm P" "leadACm (derive P) = leadACm P"
  "leadBCm (derive P) = leadBCm P" "featAType (derive P) = featAType P"
  "featBType (derive P) = featBType P" "featAWCm (derive P) = featAWCm P"
  "featALCm (derive P) = featALCm P" "featBWCm (derive P) = featBWCm P"
  "featBLCm (derive P) = featBLCm P"
  "Ldir (derive P) = vscale (vsub (B P) (A P)) (1 / L P)"
  "Wdir (derive P) = vperp_ccw (Ldir (derive P))"
  "Aext (derive P) = vadd (A P) (vscale (Ldir (derive P)) (- leadACm P))"
  "Bext (derive P) = vadd (B P) (vscale (Ldir (derive P)) (leadBCm P))"
  "Abase (derive P) = vadd (Aext (derive P)) (vscale (Ldir (derive P)) (featALCm P))"
  "Bbase (derive P) = vadd (Bext (derive P)) (vscale (Ldir (derive P)) (- featBLCm P))"
  by (simp_all add: derive_def Let_def)

lemma read_inputs_fields:
  "widthCm (read_inputs i P) = value_or_zero (widthIn i)"
  "leadACm (read_inputs i P) = value_or_zero (leadAIn i)"
  "leadBCm (read_inputs i P) = value_or_zero (leadBIn i)"
  "featAType (read_inputs i P) = name_or_None (ddA i)"
  "featBType (read_inputs i P) = name_or_None (ddB i)"
  "featAWCm (read_inputs i P) = feat_value (name_or_None (ddA i)) (featAWIn i)"
  "featALCm (read_inputs i P) = feat_value (name_or_None (ddA i)) (featALIn i)"
  "featBWCm (read_inputs i P) = feat_value (name_or_None (ddB i)) (featBWIn i)"
  "featBLCm (read_inputs i P) = feat_value (name_or_None (ddB i)) (featBLIn i)"
  "A (read_inputs i P) = A P" "B (read_inputs i P) = B P" "L (read_inputs i P) = L P"
  "Ldir (read_inputs i P) = Ldir P" "Wdir (read_inputs i P) = Wdir P"
  "Aext (read_inputs i P) = Aext P" "Bext (read_inputs i P) = Bext P"
  "Abase (read_inputs i P) = Abase P" "Bbase (read_inputs i P) = Bbase P"
  by (simp_all add: read_inputs_def Let_def)

text \<open>The two outcomes of \<^verbatim>\<open>extractParams\<close> once both points are read.\<close>

lemma extractParams_ok:
  assumes "activeSketch inputs" "selA inputs = Picked pA" "selB inputs = Picked pB"
    "kEpsCoincident < vlen (vsub pB pA)"
  shows "extractParams inputs P0 =
    (Inr (), derive ((read_inputs inputs P0)\<lparr>A := pA, B := pB, L := vlen (vsub pB pA)\<rparr>))"
  using assms by (simp add: extractParams_def Let_def v2_eta)

lemma extractParams_coincident:
  assumes "activeSketch inputs" "selA inputs = Picked pA" "selB inputs = Picked pB"
    "vlen (vsub pB pA) \<le> kEpsCoincident"
  shows "extractParams inputs P0 =
    (Inl ''Points A and B are coincident or too close together.'',
     (read_inputs inputs P0)\<lparr>A := pA, B := pB, L := vlen (vsub pB pA)\<rparr>)"
  using assms by (simp add: extractParams_def Let_def v2_eta)

text \<open>
  For a record that \<^verbatim>\<open>extractParams\<close> has derived, the signed length that the last check of
  the validator looks at is the distance of the points plus the leads minus the terminator
  lengths: leads lengthen the main segment, terminators shorten it.
\<close>

lemma derived_segment:
  assumes "activeSketch inputs" "selA inputs = Picked pA" "selB inputs = Picked pB"
    and "kEpsCoincident < vlen (vsub pB pA)"
    and "extractParams inputs P0 = (r, P)"
  shows "vdot (vsub (Bbase P) (Abase P)) (Ldir P)
    = L P + leadACm P + leadBCm P - featALCm P - featBLCm P"
proof -
  define dx where "dx = vx pB - vx pA"
  define dy where "dy = vy pB - vy pA"
  define l where "l = sqrt (dx * dx + dy * dy)"
  have l: "l = vlen (vsub pB pA)"
    by (simp add: l_def dx_def dy_def vlen_def vsub_def v2_def)
  have "0 < kEpsCoincident" by (simp add: kEpsCoincident_def)
  with assms(4) have lpos: "0 < l" unfolding l by linarith
  have "0 \<le> dx * dx + dy * dy" by simp
  then have sq: "l * l = dx * dx + dy * dy"
    unfolding l_def by (simp only: real_sqrt_mult_self abs_of_nonneg)
  have "(dx / l) * (dx / l) + (dy / l) * (dy / l) = (dx * dx + dy * dy) / (l * l)"
    by (simp add: add_divide_distrib)
  also have "\<dots> = 1"
    using lpos by (simp add: sq [symmetric])
  finally have unit: "(dx / l) * (dx / l) + (dy / l) * (dy / l) = 1" .
  have P: "P = derive ((read_inputs inputs P0)\<lparr>A := pA, B := pB, L := vlen (vsub pB pA)\<rparr>)"
    using extractParams_ok [OF assms(1-4), of P0] assms(5) by simp
  have d: "vx pB - vx pA = dx" "vy pB - vy pA = dy" by (simp_all add: dx_def dy_def)
  define ux where "ux = dx / l"
  define uy where "uy = dy / l"
  define c where "c = leadACm P + leadBCm P - featALCm P - featBLCm P"
  have "Ldir P = vscale (vsub pB pA) (1 / l)"
    unfolding P l by (simp add: derive_fields)
  then have Ld: "Ldir P = v2 ux uy"
    by (simp add: vscale_def vsub_def v2_def d ux_def uy_def)
  have AB: "vx (B P) - vx (A P) = dx" "vy (B P) - vy (A P) = dy"
    unfolding P by (simp_all add: derive_fields d)
  have seg: "vsub (Bbase P) (Abase P) = v2 (dx + ux * c) (dy + uy * c)"
  proof -
    have "vx (vsub (Bbase P) (Abase P)) = (vx (B P) - vx (A P)) + vx (Ldir P) * c"
      unfolding P c_def
      by (simp add: derive_fields(1-12,14-18) vsub_def vadd_def vscale_def v2_def algebra_simps)
    moreover have "vy (vsub (Bbase P) (Abase P)) = (vy (B P) - vy (A P)) + vy (Ldir P) * c"
      unfolding P c_def
      by (simp add: derive_fields(1-12,14-18) vsub_def vadd_def vscale_def v2_def algebra_simps)
    ultimately show ?thesis
      by (simp add: AB Ld v2_def)
  qed
  have "vdot (vsub (Bbase P) (Abase P)) (Ldir P)
      = (dx / l) * dx + (dy / l) * dy
        + ((dx / l) * (dx / l) + (dy / l) * (dy / l))
          * (leadACm P + leadBCm P - featALCm P - featBLCm P)"
    unfolding seg Ld c_def [symmetric] ux_def [symmetric] uy_def [symmetric]
    by (simp add: vdot_def v2_def algebra_simps)
  also have "(dx / l) * dx + (dy / l) * dy = l"
  proof -
    have "(dx / l) * dx + (dy / l) * dy = (dx * dx + dy * dy) / l"
      by (simp add: add_divide_distrib)
    also have "\<dots> = l"
      using lpos by (simp add: sq [symmetric])
    finally show ?thesis .
  qed
  finally have dot: "vdot (vsub (Bbase P) (Abase P)) (Ldir P)
      = l + ((dx / l) * (dx / l) + (dy / l) * (dy / l))
          * (leadACm P + leadBCm P - featALCm P - featBLCm P)" .
  have "L P = l"
    unfolding P l by (simp add: derive_fields)
  with dot show ?thesis
    by (simp only: unit mult_1)
qed

lemmas extract_eval = extractParams_def read_inputs_def derive_def Let_def
  ThickLineParams_init_def value_or_zero_def name_or_None_def feat_value_def
  kEpsCoincident_def vlen_def vsub_def vadd_def vscale_def vperp_ccw_def v2_def

lemma plain_extract:
  "extractParams plain_inputs ThickLineParams_init =
     (Inr (),
      \<lparr>A = v2 0 0, B = v2 10 0, widthCm = 2, leadACm = 0, leadBCm = 0,
       featAType = ''None'', featAWCm = 0, featALCm = 0,
       featBType = ''None'', featBWCm = 0, featBLCm = 0,
       L = 10, Ldir = v2 1 0, Wdir = v2 0 1,
       Aext = v2 0 0, Bext = v2 10 0, Abase = v2 0 0, Bbase = v2 10 0\<rparr>)"
  by (simp add: plain_inputs_def extract_eval)

lemma arrow_extract:
  "extractParams arrow_inputs ThickLineParams_init =
     (Inr (),
      \<lparr>A = v2 0 0, B = v2 10 0, widthCm = 2, leadACm = 0, leadBCm = 0,
       featAType = ''Arrow'', featAWCm = 4, featALCm = 2,
       featBType = ''None'', featBWCm = 0, featBLCm = 0,
       L = 10, Ldir = v2 1 0, Wdir = v2 0 1,
       Aext = v2 0 0, Bext = v2 10 0, Abase = v2 2 0, Bbase = v2 10 0\<rparr>)"
  by (simp add: arrow_inputs_def plain_inputs_def extract_eval)

lemma blocked_extract:
  "extractParams blocked_inputs ThickLineParams_init =
     (Inr (),
      \<lparr>A = v2 0 0, B = v2 10 0, widthCm = 2, leadACm = 0, leadBCm = 0,
       featAType = ''Arrow'', featAWCm = 4, featALCm = 0,
       featBType = ''Arrow'', featBWCm = 1, featBLCm = 2,
       L = 10, Ldir = v2 1 0, Wdir = v2 0 1,
       Aext = v2 0 0, Bext = v2 10 0, Abase = v2 0 0, Bbase = v2 8 0\<rparr>)"
  by (simp add: blocked_inputs_def plain_inputs_def extract_eval)

subsection \<open>The three-point rectangle\<close>

text \<open>
  When the third point is square to the first side, the corners are the three points given
  and the fourth corner of the specification.
\<close>

lemma rect_corners_perpendicular:
  assumes "vdot (vsub p3 p0) (vsub p1 p0) = 0" and "vdot (vsub p1 p0) (vsub p1 p0) \<noteq> 0"
  shows "rect_corners p0 p1 p3 = [p0, p1, vadd p1 (vsub p3 p0), p3]"
  using assms by (simp add: rect_corners_def Let_def vadd_def vsub_def vscale_def v2_def)

subsection \<open>Segments on parallel axis lines\<close>

lemma no_meet_y:
  assumes "vy p = vy q" "vy r = vy s" "vy p \<noteq> vy r"
  shows "\<not> segments_meet p q r s"
proof
  assume "segments_meet p q r s"
  then obtain t u where "vadd p (vscale (vsub q p) t) = vadd r (vscale (vsub s r) u)"
    unfolding segments_meet_def by blast
  then have "vy (vadd p (vscale (vsub q p) t)) = vy (vadd r (vscale (vsub s r) u))"
    by simp
  with assms show False
    by (simp add: vadd_def vscale_def vsub_def v2_def)
qed

lemma no_meet_x:
  assumes "vx p = vx q" "vx r = vx s" "vx p \<noteq> vx r"
  shows "\<not> segments_meet p q r s"
proof
  assume "segments_meet p q r s"
  then obtain t u where "vadd p (vscale (vsub q p) t) = vadd r (vscale (vsub s r) u)"
    unfolding segments_meet_def by blast
  then have "vx (vadd p (vscale (vsub q p) t)) = vx (vadd r (vscale (vsub s r) u))"
    by simp
  with assms show False
    by (simp add: vadd_def vscale_def vsub_def v2_def)
qed

subsection \<open>Lines of a text\<close>

lemma getlines_from_line:
  "CHR 0x0A \<notin> set l \<Longrightarrow>
   getlines_from cur (l @ CHR 0x0A # rest) = (cur @ l) # getlines_from [] rest"
  by (induction l arbitrary: cur) auto

lemma getlines_from_last:
  "CHR 0x0A \<notin> set l \<Longrightarrow> getlines_from cur l = (if cur @ l = [] then [] else [cur @ l])"
  by (induction l arbitrary: cur) auto

lemma getlines_from_append:
  "t1 \<noteq> [] \<Longrightarrow> last t1 = CHR 0x0A \<Longrightarrow>
   getlines_from cur (t1 @ t2) = getlines_from cur t1 @ getlines_from [] t2"
proof (induction t1 arbitrary: cur)
  case Nil
  then show ?case by simp
next
  case (Cons c cs)
  show ?case
  proof (cases "cs = []")
    case True
    with Cons.prems show ?thesis by simp
  next
    case False
    with Cons.prems have "last cs = CHR 0x0A" by simp
    with False Cons.IH show ?thesis by simp
  qed
qed

lemma getlines_append:
  "t1 = [] \<or> last t1 = CHR 0x0A \<Longrightarrow> getlines (t1 @ t2) = getlines t1 @ getlines t2"
  by (cases "t1 = []") (auto simp add: getlines_def getlines_from_append)

lemma getlines_line:
  "CHR 0x0A \<notin> set l \<Longrightarrow> getlines (l @ CHR 0x0A # rest) = l # getlines rest"
  by (simp add: getlines_def getlines_from_line)

subsection \<open>One line of the settings file\<close>

lemma apply_line_ignored:
  assumes "ignored_line stod line"
  shows "apply_line stod s line = s"
proof (cases "CHR ''='' \<in> set line")
  case False
  then show ?thesis by (simp add: apply_line_def)
next
  case sep: True
  show ?thesis
  proof (cases "line_key line \<in> set (''featAType'' # ''featBType'' # numeric_keys)")
    case False
    then show ?thesis
      by (simp add: apply_line_def numeric_keys_def Let_def split: option.split)
  next
    case True
    with sep assms have bad: "line_key line \<in> set numeric_keys" "stod (line_value line) = None"
      unfolding ignored_line_def by auto
    from bad(1) have "line_key line \<noteq> ''featAType''" "line_key line \<noteq> ''featBType''"
      by (auto simp add: numeric_keys_def)
    with bad(2) show ?thesis
      by (simp add: apply_line_def Let_def)
  qed
qed




subsection \<open>The library model on sample values\<close>


lemmas stod_eval = stod_decimal_def take_sign_def isspace_def isdigit_def digits_val_def
  digit_val_def take_exponent_def pow10_def Let_def


lemma stod_decimal_samples:
  "stod_decimal ''0'' = Some 0"
  "stod_decimal ''0.2'' = Some (1 / 5)"
  "stod_decimal ''0.5'' = Some (1 / 2)"
  "stod_decimal ''4'' = Some 4"
  "stod_decimal ''2.5'' = Some (5 / 2)"
  "stod_decimal ''12.5'' = Some (25 / 2)"
  "stod_decimal ''0.123457'' = Some (123457 / 1000000)"
  "stod_decimal ''1.23457e+06'' = Some 1234570"
  "stod_decimal ''1.5'' = Some (3 / 2)"
  "stod_decimal ''3'' = Some 3"
  "stod_decimal ''abc'' = None"
  by (simp_all add: stod_eval)

subsection \<open>Numbers of six significant digits survive the text\<close>










lemma less_10_cases:
  "d < 10 \<Longrightarrow> d = 0 \<or> d = 1 \<or> d = 2 \<or> d = 3 \<or> d = 4 \<or> d = 5 \<or> d = 6 \<or> d = 7 \<or> d = 8 \<or> d = (9::nat)"
  by arith

lemma digit_char_digit:
  assumes "d < 10"
  shows "isdigit (digit_char d)" and "digit_val (digit_char d) = d"
    and "(digit_char d = CHR ''0'') = (d = 0)"
  using less_10_cases [OF assms]
  by (auto simp add: digit_char_def isdigit_def digit_val_def)





lemma digits_val_Nil: "digits_val [] = 0"
  by (simp add: digits_val_def)



lemma six_digits_hd:
  assumes "10 ^ 5 \<le> m" "m < 10 ^ 6"
  shows "hd (six_digits m) \<noteq> CHR ''0''"
proof -
  have "m div 100000 mod 10 = m div 100000" using assms by simp
  moreover have "0 < m div 100000" using assms by (simp add: div_greater_zero_iff)
  ultimately show ?thesis
    by (simp add: six_digits_def digit_char_digit)
qed






















subsection \<open>Writing and reading back\<close>



section \<open>The claims\<close>

subsection \<open>Derivation\<close>



subsection \<open>Validation\<close>




text \<open>
  Claim C4. When the two picked points are at most \<open>1e-12\<close> apart, \<^verbatim>\<open>extractParams\<close> fails
  with the message about coincident points and leaves \<open>Ldir\<close> and \<open>Wdir\<close> as they were;
  and \<^verbatim>\<open>validateParams\<close>, on any record with \<open>L \<le> 1e-12\<close> and a positive width, fails with
  the same message.
\<close>

theorem coincident_points_rejected:
  "(activeSketch inputs \<and> selA inputs = Picked pA \<and> selB inputs = Picked pB \<and>
    vlen (vsub pB pA) \<le> kEpsCoincident \<longrightarrow>
      (\<exists>P. extractParams inputs P0 =
              (Inl ''Points A and B are coincident or too close together.'', P) \<and>
            L P = vlen (vsub pB pA) \<and> Ldir P = Ldir P0 \<and> Wdir P = Wdir P0)) \<and>
   (L Q \<le> kEpsCoincident \<and> 0 < widthCm Q \<longrightarrow>
      validateParams Q = Inl ''Points A and B are coincident or too close together.'')"
  by (auto simp add: extractParams_coincident read_inputs_fields validateParams_def)

text \<open>
  At \<open>coincident_inputs\<close>: derivation fails, the direction vectors are still zero, and the
  record it leaves is rejected by the validator for the same reason.
\<close>

theorem coincident_points_rejected_witness:
  "\<exists>P. extractParams coincident_inputs ThickLineParams_init =
          (Inl ''Points A and B are coincident or too close together.'', P) \<and>
        L P = 0 \<and> Ldir P = v2 0 0 \<and> Wdir P = v2 0 0 \<and> widthCm P = 2 \<and>
        validateParams P = Inl ''Points A and B are coincident or too close together.''"
proof -
  have len: "vlen (vsub (v2 3 4) (v2 3 4)) = 0"
    by (simp add: vlen_def vsub_def v2_def)
  have h: "activeSketch coincident_inputs \<and> selA coincident_inputs = Picked (v2 3 4) \<and>
      selB coincident_inputs = Picked (v2 3 4) \<and>
      vlen (vsub (v2 3 4) (v2 3 4)) \<le> kEpsCoincident"
    by (simp add: len coincident_inputs_def plain_inputs_def kEpsCoincident_def)
  have w: "widthCm (snd (extractParams coincident_inputs ThickLineParams_init)) = 2"
    using h by (simp add: extractParams_coincident read_inputs_fields)
      (simp add: coincident_inputs_def plain_inputs_def value_or_zero_def)
  from coincident_points_rejected [of coincident_inputs "v2 3 4" "v2 3 4" ThickLineParams_init] h
  obtain P where P: "extractParams coincident_inputs ThickLineParams_init =
          (Inl ''Points A and B are coincident or too close together.'', P)"
      "L P = vlen (vsub (v2 3 4) (v2 3 4))" "Ldir P = Ldir ThickLineParams_init"
      "Wdir P = Wdir ThickLineParams_init"
    by blast
  have wP: "widthCm P = 2"
    using w P(1) by simp
  have "L P \<le> kEpsCoincident \<and> 0 < widthCm P"
    using P(2) wP by (simp add: len kEpsCoincident_def)
  with coincident_points_rejected [of coincident_inputs "v2 3 4" "v2 3 4" ThickLineParams_init P]
  have "validateParams P = Inl ''Points A and B are coincident or too close together.''"
    by blast
  with P wP show ?thesis
    by (simp add: len ThickLineParams_init_def)
qed

text \<open>
  Claim C5, as the code has it. With a positive width and \<open>L > 1e-12\<close>, an active
  terminator at A that is narrower than the line makes validation fail with the width
  message of end A. An active terminator at B that is narrower than the line makes it fail
  with the width message of end B when, moreover, end A passes its own two checks. In every
  case a narrower active terminator makes validation fail with some message.
\<close>

theorem narrow_terminator_rejected:
  "(0 < widthCm P \<and> kEpsCoincident < L P \<and>
    featAType P \<noteq> ''None'' \<and> featAWCm P < widthCm P \<longrightarrow>
      validateParams P = Inl ''Feature A width must be >= line width.'') \<and>
   (0 < widthCm P \<and> kEpsCoincident < L P \<and>
    (featAType P = ''None'' \<or> (widthCm P \<le> featAWCm P \<and> 0 < featALCm P)) \<and>
    featBType P \<noteq> ''None'' \<and> featBWCm P < widthCm P \<longrightarrow>
      validateParams P = Inl ''Feature B width must be >= line width.'') \<and>
   (((featAType P \<noteq> ''None'' \<and> featAWCm P < widthCm P) \<or>
     (featBType P \<noteq> ''None'' \<and> featBWCm P < widthCm P)) \<longrightarrow>
      (\<exists>msg. validateParams P = Inl msg))"
  by (auto simp add: validateParams_def Let_def)

text \<open>At \<open>narrow_params\<close>, and at the same record with a narrow arrow at A.\<close>

theorem narrow_terminator_rejected_witness:
  "validateParams (narrow_params\<lparr>featAType := ''Arrow'', featAWCm := 1, featALCm := 1\<rparr>)
     = Inl ''Feature A width must be >= line width.'' \<and>
   validateParams narrow_params = Inl ''Feature B width must be >= line width.''"
proof -
  let ?Q = "narrow_params\<lparr>featAType := ''Arrow'', featAWCm := 1, featALCm := 1\<rparr>"
  have a: "0 < widthCm ?Q \<and> kEpsCoincident < L ?Q \<and>
      featAType ?Q \<noteq> ''None'' \<and> featAWCm ?Q < widthCm ?Q"
    by (simp add: narrow_params_def kEpsCoincident_def)
  have b: "0 < widthCm narrow_params \<and> kEpsCoincident < L narrow_params \<and>
      (featAType narrow_params = ''None'' \<or>
        (widthCm narrow_params \<le> featAWCm narrow_params \<and> 0 < featALCm narrow_params)) \<and>
      featBType narrow_params \<noteq> ''None'' \<and> featBWCm narrow_params < widthCm narrow_params"
    by (simp add: narrow_params_def kEpsCoincident_def)
  show ?thesis
    using narrow_terminator_rejected [of ?Q] narrow_terminator_rejected [of narrow_params] a b
    by blast
qed

text \<open>
  The claim as stated fails at \<open>blocked_inputs\<close>: derivation succeeds, the arrow at B is
  active and narrower than the line, and yet the reason is the length of the arrow at A,
  which is checked before.
\<close>

theorem narrow_terminator_other_message:
  "fst (extractParams blocked_inputs ThickLineParams_init) = Inr () \<and>
   featBType (snd (extractParams blocked_inputs ThickLineParams_init)) = ''Arrow'' \<and>
   featBWCm (snd (extractParams blocked_inputs ThickLineParams_init))
     < widthCm (snd (extractParams blocked_inputs ThickLineParams_init)) \<and>
   validateParams (snd (extractParams blocked_inputs ThickLineParams_init))
     = Inl ''Feature A length must be > 0.'' \<and>
   validateParams (snd (extractParams blocked_inputs ThickLineParams_init))
     \<noteq> Inl ''Feature B width must be >= line width.''"
  by (simp add: blocked_extract validateParams_def kEpsCoincident_def)

subsection \<open>Shapes\<close>

text \<open>
  Claim C6. For A = (0, 0), B = (10, 0), width 2, no leads and no terminators, the command
  draws exactly one shape, the three-point rectangle through (0, 1), (10, 1) and (0, -1).
  Its polygon has the corners (0, 1), (10, 1), (10, -1), (0, -1) in this order, so its corner
  set is the one of the specification, and no two opposite edges of it meet.
\<close>

theorem plain_scenario_shapes:
  "command_shapes plain_inputs = Inr [ThreePointRect (v2 0 1) (v2 10 1) (v2 0 (- 1))] \<and>
   polygon_of (ThreePointRect (v2 0 1) (v2 10 1) (v2 0 (- 1))) =
     [v2 0 1, v2 10 1, v2 10 (- 1), v2 0 (- 1)] \<and>
   set (polygon_of (ThreePointRect (v2 0 1) (v2 10 1) (v2 0 (- 1)))) =
     {v2 0 1, v2 10 1, v2 0 (- 1), v2 10 (- 1)} \<and>
   simple_quad (polygon_of (ThreePointRect (v2 0 1) (v2 10 1) (v2 0 (- 1))))"
proof -
  have shapes:
    "command_shapes plain_inputs = Inr [ThreePointRect (v2 0 1) (v2 10 1) (v2 0 (- 1))]"
    by (simp add: command_shapes_def plain_extract validateParams_def kEpsCoincident_def
        kEpsSketchLen_def draw_shapes_def featA_shapes_def featB_shapes_def Let_def
        vdot_def vsub_def vadd_def vscale_def v2_def)
  have poly: "polygon_of (ThreePointRect (v2 0 1) (v2 10 1) (v2 0 (- 1))) =
     [v2 0 1, v2 10 1, v2 10 (- 1), v2 0 (- 1)]"
    by (simp add: rect_corners_def Let_def vdot_def vsub_def vadd_def vscale_def v2_def)
  have corners: "set [v2 0 1, v2 10 1, v2 10 (- 1), v2 0 (- 1)] =
     {v2 0 1, v2 10 1, v2 0 (- 1), v2 10 (- 1)}"
    by auto
  have simple: "simple_quad [v2 0 1, v2 10 1, v2 10 (- 1), v2 0 (- 1)]"
    by (simp add: no_meet_y no_meet_x v2_def)
  show ?thesis
    by (simp only: shapes poly corners simple simp_thms)
qed

text \<open>
  Claim C7. With an arrow of width 4 and length 2 at A, derivation and validation succeed
  with \<open>Aext = (0, 0)\<close>, \<open>Abase = (2, 0)\<close> and \<open>Bbase = (10, 0)\<close>; the command draws the
  main rectangle, now from (2, \<open>\<plusminus>\<close>1) to (10, \<open>\<plusminus>\<close>1), and one triangle with base corners
  (2, 2) and (2, -2) and apex (0, 0); nothing is drawn for end B.
\<close>

theorem arrow_scenario_shapes:
  "(\<exists>P. extractParams arrow_inputs ThickLineParams_init = (Inr (), P) \<and>
        validateParams P = Inr () \<and>
        Aext P = v2 0 0 \<and> Abase P = v2 2 0 \<and> Bbase P = v2 10 0 \<and>
        featB_shapes P = []) \<and>
   command_shapes arrow_inputs =
     Inr [ThreePointRect (v2 2 1) (v2 10 1) (v2 2 (- 1)),
          Triangle (v2 2 2) (v2 0 0) (v2 2 (- 2))] \<and>
   polygon_of (ThreePointRect (v2 2 1) (v2 10 1) (v2 2 (- 1))) =
     [v2 2 1, v2 10 1, v2 10 (- 1), v2 2 (- 1)] \<and>
   polygon_of (Triangle (v2 2 2) (v2 0 0) (v2 2 (- 2))) = [v2 2 2, v2 0 0, v2 2 (- 2)]"
proof -
  have shapes: "command_shapes arrow_inputs =
     Inr [ThreePointRect (v2 2 1) (v2 10 1) (v2 2 (- 1)),
          Triangle (v2 2 2) (v2 0 0) (v2 2 (- 2))]"
    by (simp add: command_shapes_def arrow_extract validateParams_def kEpsCoincident_def
        kEpsSketchLen_def draw_shapes_def featA_shapes_def featB_shapes_def Let_def
        vdot_def vsub_def vadd_def vscale_def v2_def)
  have poly: "polygon_of (ThreePointRect (v2 2 1) (v2 10 1) (v2 2 (- 1))) =
     [v2 2 1, v2 10 1, v2 10 (- 1), v2 2 (- 1)]"
    by (simp add: rect_corners_def Let_def vdot_def vsub_def vadd_def vscale_def v2_def)
  have ex: "\<exists>P. extractParams arrow_inputs ThickLineParams_init = (Inr (), P) \<and>
        validateParams P = Inr () \<and>
        Aext P = v2 0 0 \<and> Abase P = v2 2 0 \<and> Bbase P = v2 10 0 \<and>
        featB_shapes P = []"
    by (simp add: arrow_extract validateParams_def kEpsCoincident_def kEpsSketchLen_def
        featB_shapes_def Let_def vdot_def vsub_def v2_def)
  show ?thesis
    using ex shapes poly by simp
qed

subsection \<open>The settings file\<close>




text \<open>
  Claim C9. A line without \<open>=\<close>, a line with an unknown key, and a line with a numeric
  key whose value \<^verbatim>\<open>std::stod\<close> cannot read each leave the settings read so far
  unchanged; the lines before and after such a line are processed as if it were not there,
  in the middle of the text as well as at its end; and when the file cannot be opened the
  result is the defaults: width 0.2, both types \<open>None\<close>, leads 0, terminator widths and
  lengths 0.5.
\<close>

theorem decode_tolerant:
  "(ignored_line stod line \<longrightarrow> apply_line stod s line = s) \<and>
   (ignored_line stod line \<and> CHR 0x0A \<notin> set line \<and> (t1 = [] \<or> last t1 = CHR 0x0A) \<longrightarrow>
      loadSettingsIni stod (Some (t1 @ line @ CHR 0x0A # t2)) =
        loadSettingsIni stod (Some (t1 @ t2)) \<and>
      loadSettingsIni stod (Some (t1 @ line)) = loadSettingsIni stod (Some t1)) \<and>
   loadSettingsIni stod None =
     \<lparr>width_cm = 2 / 10, featAType = ''None'', leadA_cm = 0, featAL_cm = 5 / 10,
      featAW_cm = 5 / 10, featBType = ''None'', leadB_cm = 0, featBL_cm = 5 / 10,
      featBW_cm = 5 / 10\<rparr>"
proof (intro conjI impI)
  assume "ignored_line stod line"
  then show "apply_line stod s line = s" by (rule apply_line_ignored)
next
  assume a: "ignored_line stod line \<and> CHR 0x0A \<notin> set line \<and> (t1 = [] \<or> last t1 = CHR 0x0A)"
  then have "getlines (t1 @ line @ CHR 0x0A # t2) = getlines t1 @ line # getlines t2"
    by (simp add: getlines_append getlines_line)
  moreover have "getlines (t1 @ t2) = getlines t1 @ getlines t2"
    using a by (simp add: getlines_append)
  ultimately show "loadSettingsIni stod (Some (t1 @ line @ CHR 0x0A # t2)) =
      loadSettingsIni stod (Some (t1 @ t2))"
    using a by (simp add: loadSettingsIni_def apply_line_ignored)
next
  assume a: "ignored_line stod line \<and> CHR 0x0A \<notin> set line \<and> (t1 = [] \<or> last t1 = CHR 0x0A)"
  then have "getlines (t1 @ line) = getlines t1 @ (if line = [] then [] else [line])"
    by (simp add: getlines_append) (simp add: getlines_def getlines_from_last)
  then show "loadSettingsIni stod (Some (t1 @ line)) = loadSettingsIni stod (Some t1)"
    using a by (simp add: loadSettingsIni_def apply_line_ignored)
next
  show "loadSettingsIni stod None =
     \<lparr>width_cm = 2 / 10, featAType = ''None'', leadA_cm = 0, featAL_cm = 5 / 10,
      featAW_cm = 5 / 10, featBType = ''None'', leadB_cm = 0, featBL_cm = 5 / 10,
      featBW_cm = 5 / 10\<rparr>"
    by (simp add: loadSettingsIni_def ThickLineSettings_default_def)
qed

text \<open>
  At \<open>damaged_text\<close>, which has a line without separator, a lead A that is not a number, and
  an unknown key between a good width and a good terminator width: the three lines are
  dropped one after the other, the lead keeps its default 0, and the two good lines count.
\<close>

theorem decode_tolerant_witness:
  "loadSettingsIni stod_decimal (Some damaged_text)
     = ThickLineSettings_default\<lparr>width_cm := 15 / 10, featAW_cm := 3\<rparr> \<and>
   leadA_cm (loadSettingsIni stod_decimal (Some damaged_text)) = 0"
proof -
  let ?nl = "CHR 0x0A"
  let ?t1 = "''width_cm=1.5'' @ [?nl]"
  have i1: "ignored_line stod_decimal ''no separator here''"
    by (simp add: ignored_line_def)
  have i2: "ignored_line stod_decimal ''leadA_cm=abc''"
    by (simp add: ignored_line_def line_key_def line_value_def numeric_keys_def
        stod_decimal_samples)
  have i3: "ignored_line stod_decimal ''colour=3''"
    by (simp add: ignored_line_def line_key_def numeric_keys_def)
  have "loadSettingsIni stod_decimal (Some damaged_text) =
      loadSettingsIni stod_decimal
        (Some (?t1 @ ''leadA_cm=abc'' @ ?nl # (''colour=3'' @ [?nl] @ ''featAW_cm=3'' @ [?nl])))"
    using decode_tolerant [of stod_decimal "''no separator here''" undefined ?t1
        "''leadA_cm=abc'' @ [?nl] @ ''colour=3'' @ [?nl] @ ''featAW_cm=3'' @ [?nl]"] i1
    by (simp add: damaged_text_def)
  also have "\<dots> = loadSettingsIni stod_decimal
        (Some (?t1 @ ''colour=3'' @ ?nl # (''featAW_cm=3'' @ [?nl])))"
    using decode_tolerant [of stod_decimal "''leadA_cm=abc''" undefined ?t1
        "''colour=3'' @ [?nl] @ ''featAW_cm=3'' @ [?nl]"] i2
    by simp
  also have "\<dots> = loadSettingsIni stod_decimal (Some (?t1 @ ''featAW_cm=3'' @ [?nl]))"
    using decode_tolerant [of stod_decimal "''colour=3''" undefined ?t1
        "''featAW_cm=3'' @ [?nl]"] i3
    by simp
  also have "\<dots> = ThickLineSettings_default\<lparr>width_cm := 15 / 10, featAW_cm := 3\<rparr>"
    by (simp add: loadSettingsIni_def getlines_def apply_line_def line_key_def line_value_def
        stod_decimal_samples Let_def)
  finally show ?thesis
    by (simp add: ThickLineSettings_default_def)
qed

text \<open>
  Claim C10. A line \<open>featAType=v\<close> or \<open>featBType=v\<close> stores \<open>v\<close>, whatever it is, as the
  terminator type; so the text \<open>featAType=Garbage\<close> decodes to settings whose type for A is
  \<open>Garbage\<close>, which is none of \<open>None\<close>, \<open>Arrow\<close> and \<open>T\<close>.
\<close>

theorem decode_type_verbatim:
  "apply_line stod s (''featAType='' @ v) = s\<lparr>ThickLineSettings.featAType := v\<rparr> \<and>
   apply_line stod s (''featBType='' @ v) = s\<lparr>ThickLineSettings.featBType := v\<rparr> \<and>
   ThickLineSettings.featAType (loadSettingsIni stod (Some ''featAType=Garbage'')) = ''Garbage'' \<and>
   ''Garbage'' \<notin> {''None'', ''Arrow'', ''T''}"
  by (simp add: apply_line_def line_key_def line_value_def loadSettingsIni_def getlines_def
      Let_def)

end
